theory Spec2Isabelle
  imports Main
begin

section \<open>Python values used by the readers\<close>

text \<open>
  The exceptions the two source files can raise, as values. \<open>StopIteration\<close> is the
  end-of-corpus signal, \<open>ValueError\<close> is raised by the constructor of \<open>TextFile\<close>, by
  \<open>TextFile.get_data\<close> on a request that is not \<open>None\<close>, and by Python's
  \<open>readline\<close> on a closed file; \<open>KeyError\<close> by \<open>dictionary[key]\<close>, \<open>IndexError\<close> by
  \<open>files[i]\<close>, \<open>IOError\<close> by \<open>open\<close> on a path that cannot be opened.
\<close>

datatype error =
    StopIteration
  | ValueError
  | KeyError string
  | IndexError
  | IOError string

text \<open>Python's \<open>xs[i]\<close>: a negative index counts from the end, out of range raises.\<close>

definition py_index :: "'a list \<Rightarrow> int \<Rightarrow> error + 'a" where
  "py_index xs i =
     (if 0 \<le> i \<and> i < int (length xs) then Inr (xs ! nat i)
      else if i < 0 \<and> - int (length xs) \<le> i then Inr (xs ! nat (int (length xs) + i))
      else Inl IndexError)"

text \<open>Python's \<open>d[k]\<close> on a dict.\<close>

definition getitem :: "(string \<rightharpoonup> int) \<Rightarrow> string \<Rightarrow> error + int" where
  "getitem d k = (case d k of None \<Rightarrow> Inl (KeyError k) | Some v \<Rightarrow> Inr v)"

subsection \<open>Text files\<close>

text \<open>
  A file system maps a path to the text of the file; a file handle opened for reading
  holds the text not read yet and whether it was closed. \<open>open\<close> raises on a missing
  path, \<open>readline\<close> returns the text up to and including the next newline (the empty
  string at the end of the file) and raises \<open>ValueError\<close> on a closed handle, \<open>close\<close>
  may be repeated.
\<close>

type_synonym filesystem = "string \<rightharpoonup> string"

record file_handle =
  buffer :: string
  closed :: bool

definition newline :: char where
  "newline = CHR 0x0A"

fun take_line :: "string \<Rightarrow> string \<times> string" where
  "take_line [] = ([], [])"
| "take_line (c # cs) =
     (if c = newline then ([c], cs)
      else (case take_line cs of (l, r) \<Rightarrow> (c # l, r)))"

definition open_file :: "filesystem \<Rightarrow> string \<Rightarrow> error + file_handle" where
  "open_file fs path =
     (case fs path of
        None \<Rightarrow> Inl (IOError path)
      | Some text \<Rightarrow> Inr \<lparr>buffer = text, closed = False\<rparr>)"

definition readline :: "file_handle \<Rightarrow> error + (string \<times> file_handle)" where
  "readline f =
     (if closed f then Inl ValueError
      else (case take_line (buffer f) of (l, r) \<Rightarrow> Inr (l, f\<lparr>buffer := r\<rparr>)))"

definition close :: "file_handle \<Rightarrow> file_handle" where
  "close f = f\<lparr>closed := True\<rparr>"

subsection \<open>Strings\<close>

text \<open>
  \<open>str.split()\<close> without arguments: the maximal runs of characters that are not
  whitespace, where whitespace is space, tab, newline, vertical tab, form feed and
  carriage return.
\<close>

definition is_space :: "char \<Rightarrow> bool" where
  "is_space c \<longleftrightarrow>
     c = CHR 0x20 \<or> c = CHR 0x09 \<or> c = CHR 0x0A \<or> c = CHR 0x0B \<or> c = CHR 0x0C \<or> c = CHR 0x0D"

fun split_from :: "string \<Rightarrow> string \<Rightarrow> string list" where
  "split_from w [] = (if w = [] then [] else [w])"
| "split_from w (c # cs) =
     (if is_space c then (if w = [] then split_from [] cs else w # split_from [] cs)
      else split_from (w @ [c]) cs)"

definition split :: "string \<Rightarrow> string list" where
  "split s = split_from [] s"

text \<open>\<open>str.lower\<close> on ASCII text, the preprocessing function of the docstring's example.\<close>

definition str_lower :: "string \<Rightarrow> string" where
  "str_lower s =
     map (\<lambda>c. case map_of (zip ''ABCDEFGHIJKLMNOPQRSTUVWXYZ'' ''abcdefghijklmnopqrstuvwxyz'') c of
                 None \<Rightarrow> c | Some l \<Rightarrow> l) s"

section \<open>\<open>TextFile\<close> (blocks/datasets/one\_billion\_word.py)\<close>

record TextFile =
  tf_files :: "string list"
  tf_dictionary :: "string \<rightharpoonup> int"
  tf_bos_token :: "string option"
  tf_eos_token :: "string option"
  tf_unk_token :: string
  tf_level :: string
  tf_preprocess :: "(string \<Rightarrow> string) option"

text \<open>
  \<open>TextFile.__init__\<close>: the three membership checks in the order of the source, each
  raising \<open>ValueError\<close>.
\<close>

definition TextFile_init ::
  "string list \<Rightarrow> (string \<rightharpoonup> int) \<Rightarrow> string option \<Rightarrow> string option \<Rightarrow> string \<Rightarrow> string
     \<Rightarrow> (string \<Rightarrow> string) option \<Rightarrow> error + TextFile" where
  "TextFile_init files dictionary bos_token eos_token unk_token level preprocess =
     (if (case bos_token of None \<Rightarrow> False | Some b \<Rightarrow> dictionary b = None) then Inl ValueError
      else if (case eos_token of None \<Rightarrow> False | Some e \<Rightarrow> dictionary e = None) then Inl ValueError
      else if dictionary unk_token = None then Inl ValueError
      else Inr \<lparr>tf_files = files, tf_dictionary = dictionary, tf_bos_token = bos_token,
                tf_eos_token = eos_token, tf_unk_token = unk_token, tf_level = level,
                tf_preprocess = preprocess\<rparr>)"

text \<open>The session state made by \<open>open\<close>: the index of the current file and its handle.\<close>

record reader_state =
  current_index :: int
  state_file :: file_handle

definition TextFile_open_file :: "TextFile \<Rightarrow> filesystem \<Rightarrow> int \<Rightarrow> error + file_handle" where
  "TextFile_open_file self fs partition_index =
     (case py_index (tf_files self) partition_index of
        Inl e \<Rightarrow> Inl e
      | Inr path \<Rightarrow> open_file fs path)"

definition TextFile_open :: "TextFile \<Rightarrow> filesystem \<Rightarrow> error + reader_state" where
  "TextFile_open self fs =
     (case TextFile_open_file self fs 0 of
        Inl e \<Rightarrow> Inl e
      | Inr f \<Rightarrow> Inr \<lparr>current_index = 0, state_file = f\<rparr>)"

text \<open>
  The \<open>while True\<close> loop of \<open>TextFile.get_data\<close>: read a line; at the end of a file
  close it and either raise \<open>StopIteration\<close> (last file) or move to the next file and
  read again. The state is returned as the loop left it, also when it raises.
\<close>

function TextFile_next_sentence ::
  "TextFile \<Rightarrow> filesystem \<Rightarrow> reader_state \<Rightarrow> (error + string) \<times> reader_state" where
  "TextFile_next_sentence self fs state =
     (case readline (state_file state) of
        Inl e \<Rightarrow> (Inl e, state)
      | Inr (sentence, f) \<Rightarrow>
          if sentence = [] then
            if current_index state = int (length (tf_files self)) - 1
            then (Inl StopIteration, state\<lparr>state_file := close f\<rparr>)
            else
              (case TextFile_open_file self fs (current_index state + 1) of
                 Inl e \<Rightarrow> (Inl e, state\<lparr>current_index := current_index state + 1, state_file := close f\<rparr>)
               | Inr g \<Rightarrow>
                   TextFile_next_sentence self fs
                     (state\<lparr>current_index := current_index state + 1, state_file := g\<rparr>))
          else (Inr sentence, state\<lparr>state_file := f\<rparr>))"
  by pat_completeness auto
termination
proof (relation "measure (\<lambda>(self, fs, state). nat (int (length (tf_files self)) - current_index state))")
  show "wf (measure (\<lambda>(self, fs, state). nat (int (length (tf_files self)) - current_index state)))"
    by simp
next
  fix self :: TextFile and fs :: filesystem and state :: reader_state
    and x2 :: "string \<times> file_handle" and x y and g :: file_handle
  assume "TextFile_open_file self fs (current_index state + 1) = Inr g"
  then have "current_index state + 1 < int (length (tf_files self))"
    by (auto simp: TextFile_open_file_def py_index_def Let_def split: if_splits sum.splits)
  then show "((self, fs, state\<lparr>current_index := current_index state + 1, state_file := g\<rparr>), self, fs, state)
       \<in> measure (\<lambda>(self, fs, state). nat (int (length (tf_files self)) - current_index state))"
    by simp
qed

text \<open>
  The numberizing of a sentence: the value of \<open>dictionary[unk_token]\<close> is looked up
  for every word (it is the default argument of \<open>dictionary.get\<close>), so a missing
  unknown token raises as soon as there is a word.
\<close>

fun numberize :: "(string \<rightharpoonup> int) \<Rightarrow> string \<Rightarrow> string list \<Rightarrow> error + int list" where
  "numberize d unk [] = Inr []"
| "numberize d unk (word # ws) =
     (case getitem d unk of
        Inl e \<Rightarrow> Inl e
      | Inr u \<Rightarrow>
          (case numberize d unk ws of
             Inl e \<Rightarrow> Inl e
           | Inr ids \<Rightarrow> Inr ((case d word of None \<Rightarrow> u | Some v \<Rightarrow> v) # ids)))"

text \<open>
  \<open>[dictionary[token]] if token else []\<close>: the test is Python truth, so \<open>None\<close> and
  the empty string both give the empty list.
\<close>

definition marker :: "(string \<rightharpoonup> int) \<Rightarrow> string option \<Rightarrow> error + int list" where
  "marker d token =
     (case token of
        None \<Rightarrow> Inr []
      | Some t \<Rightarrow>
          if t = [] then Inr []
          else (case getitem d t of Inl e \<Rightarrow> Inl e | Inr v \<Rightarrow> Inr [v]))"

definition TextFile_numberize :: "TextFile \<Rightarrow> string \<Rightarrow> error + int list" where
  "TextFile_numberize self sentence =
     (let sentence = (case tf_preprocess self of None \<Rightarrow> sentence | Some p \<Rightarrow> p sentence)
      in case marker (tf_dictionary self) (tf_bos_token self) of
           Inl e \<Rightarrow> Inl e
         | Inr bos \<Rightarrow>
             (case numberize (tf_dictionary self) (tf_unk_token self) (split sentence) of
                Inl e \<Rightarrow> Inl e
              | Inr ids \<Rightarrow>
                  (case marker (tf_dictionary self) (tf_eos_token self) of
                     Inl e \<Rightarrow> Inl e
                   | Inr eos \<Rightarrow> Inr (bos @ ids @ eos))))"

text \<open>
  \<open>TextFile.get_data(state, request)\<close>. The request is \<open>None\<close> or some value, of which
  only the presence matters. The source returns the 1-tuple \<open>(data,)\<close>; the model
  returns \<open>data\<close>.
\<close>

definition TextFile_get_data ::
  "TextFile \<Rightarrow> filesystem \<Rightarrow> reader_state \<Rightarrow> int option \<Rightarrow> (error + int list) \<times> reader_state" where
  "TextFile_get_data self fs state request =
     (if request \<noteq> None then (Inl ValueError, state)
      else (case TextFile_next_sentence self fs state of
              (Inl e, state') \<Rightarrow> (Inl e, state')
            | (Inr sentence, state') \<Rightarrow> (TextFile_numberize self sentence, state')))"

section \<open>\<open>OneBillionWord\<close> (blocks/datasets/one\_billion\_word.py)\<close>

record OneBillionWord =
  which_set :: string
  which_partitions :: "int list"
  obw_dictionary :: "string \<rightharpoonup> int"
  obw_preprocess :: "(string \<Rightarrow> string) option"

text \<open>\<open>OneBillionWord.__init__\<close> stores its four arguments.\<close>

definition OneBillionWord_init ::
  "string \<Rightarrow> int list \<Rightarrow> (string \<rightharpoonup> int) \<Rightarrow> (string \<Rightarrow> string) option \<Rightarrow> error + OneBillionWord" where
  "OneBillionWord_init set_name partitions dictionary preprocess =
     Inr \<lparr>which_set = set_name, which_partitions = partitions, obw_dictionary = dictionary,
          obw_preprocess = preprocess\<rparr>"

text \<open>
  \<open>'{:05d}'.format(n)\<close>: the decimal digits, padded with zeros to five characters,
  the sign of a negative number counting as one of the five.
\<close>

fun digits :: "nat \<Rightarrow> string" where
  "digits n =
     (if n < 10 then [''0123456789'' ! n]
      else digits (n div 10) @ [''0123456789'' ! (n mod 10)])"

definition format_05d :: "int \<Rightarrow> string" where
  "format_05d n =
     (if n < 0
      then CHR ''-'' # replicate (4 - length (digits (nat (- n)))) CHR ''0'' @ digits (nat (- n))
      else replicate (5 - length (digits (nat n))) CHR ''0'' @ digits (nat n))"

text \<open>\<open>os.path.join\<close> of \<open>posixpath\<close>: a component that starts with a slash restarts the path.\<close>

definition join_step :: "string \<Rightarrow> string \<Rightarrow> string" where
  "join_step path b =
     (if b \<noteq> [] \<and> hd b = CHR ''/'' then b
      else if path = [] \<or> last path = CHR ''/'' then path @ b
      else path @ ''/'' @ b)"

definition path_join :: "string \<Rightarrow> string list \<Rightarrow> string" where
  "path_join a p = foldl join_step a p"

text \<open>
  The path \<open>_open_file\<close> builds for a partition number. \<open>config.data_path\<close> comes from
  the package's configuration, which is not part of these two files: it is the
  parameter \<open>data_path\<close>.
\<close>

definition partition_path :: "string \<Rightarrow> string \<Rightarrow> int \<Rightarrow> string" where
  "partition_path data_path set_name number =
     (if set_name = ''training''
      then path_join data_path
             [''1-billion-word'', ''training-monolingual.tokenized.shuffled'',
              ''news.en-'' @ format_05d number @ ''-of-00100'']
      else path_join data_path
             [''1-billion-word'', ''heldout-monolingual.tokenized.shuffled'',
              ''news.en.heldout-'' @ format_05d number @ ''-of-00050''])"

definition OneBillionWord_open_file ::
  "OneBillionWord \<Rightarrow> string \<Rightarrow> filesystem \<Rightarrow> int \<Rightarrow> error + file_handle" where
  "OneBillionWord_open_file self data_path fs partition_index =
     (case py_index (which_partitions self) partition_index of
        Inl e \<Rightarrow> Inl e
      | Inr number \<Rightarrow> open_file fs (partition_path data_path (which_set self) number))"

definition OneBillionWord_open ::
  "OneBillionWord \<Rightarrow> string \<Rightarrow> filesystem \<Rightarrow> error + reader_state" where
  "OneBillionWord_open self data_path fs =
     (case OneBillionWord_open_file self data_path fs 0 of
        Inl e \<Rightarrow> Inl e
      | Inr f \<Rightarrow> Inr \<lparr>current_index = 0, state_file = f\<rparr>)"

text \<open>
  The sequence appended for one line:
  \<open>[d['<S>']] + [d.get(word, d['<UNK>']) for word in sentence.split()] + [d['</S>']]\<close>,
  the three parts evaluated from left to right.
\<close>

definition OneBillionWord_numberize :: "OneBillionWord \<Rightarrow> string \<Rightarrow> error + int list" where
  "OneBillionWord_numberize self sentence =
     (case getitem (obw_dictionary self) ''<S>'' of
        Inl e \<Rightarrow> Inl e
      | Inr bos \<Rightarrow>
          (case numberize (obw_dictionary self) ''<UNK>'' (split sentence) of
             Inl e \<Rightarrow> Inl e
           | Inr ids \<Rightarrow>
               (case getitem (obw_dictionary self) ''</S>'' of
                  Inl e \<Rightarrow> Inl e
                | Inr eos \<Rightarrow> Inr ([bos] @ ids @ [eos]))))"

text \<open>
  The loop \<open>while len(data) < request\<close> of \<open>OneBillionWord.get_data\<close>, with the list
  collected so far as an argument. It ends because every round either appends to
  \<open>data\<close> or moves to a later partition.
\<close>

function OneBillionWord_collect ::
  "OneBillionWord \<Rightarrow> string \<Rightarrow> filesystem \<Rightarrow> int \<Rightarrow> int list list \<Rightarrow> reader_state
     \<Rightarrow> (error + int list list) \<times> reader_state" where
  "OneBillionWord_collect self data_path fs request data state =
     (if int (length data) < request then
        (case readline (state_file state) of
           Inl e \<Rightarrow> (Inl e, state)
         | Inr (sentence, f) \<Rightarrow>
             if sentence = [] then
               if current_index state = int (length (which_partitions self)) - 1 then
                 if data = [] then (Inl StopIteration, state\<lparr>state_file := close f\<rparr>)
                 else (Inr data, state\<lparr>state_file := close f\<rparr>)
               else
                 (case OneBillionWord_open_file self data_path fs (current_index state + 1) of
                    Inl e \<Rightarrow>
                      (Inl e, state\<lparr>current_index := current_index state + 1, state_file := close f\<rparr>)
                  | Inr g \<Rightarrow>
                      OneBillionWord_collect self data_path fs request data
                        (state\<lparr>current_index := current_index state + 1, state_file := g\<rparr>))
             else
               (case OneBillionWord_numberize self sentence of
                  Inl e \<Rightarrow> (Inl e, state\<lparr>state_file := f\<rparr>)
                | Inr ids \<Rightarrow>
                    OneBillionWord_collect self data_path fs request (data @ [ids])
                      (state\<lparr>state_file := f\<rparr>)))
      else (Inr data, state))"
  by pat_completeness auto
termination
proof (relation
    "measures [\<lambda>(self, data_path, fs, request, data, state).
                 nat (int (length (which_partitions self)) - current_index state),
               \<lambda>(self, data_path, fs, request, data, state). nat (request - int (length data))]",
    goal_cases)
  case 1
  show ?case by simp
next
  case (2 self data_path fs request data state x2 x y g)
  from 2(6) have "current_index state + 1 < int (length (which_partitions self))"
    by (auto simp: OneBillionWord_open_file_def py_index_def Let_def split: if_splits sum.splits)
  then show ?case by simp
next
  case (3 self data_path fs request data state x2 x y ids)
  then show ?case by simp
qed

text \<open>
  \<open>OneBillionWord.get_data(state, request)\<close>, the request an integer. The source returns
  the 1-tuple \<open>(data,)\<close>; the model returns \<open>data\<close>.
\<close>

definition OneBillionWord_get_data ::
  "OneBillionWord \<Rightarrow> string \<Rightarrow> filesystem \<Rightarrow> reader_state \<Rightarrow> int
     \<Rightarrow> (error + int list list) \<times> reader_state" where
  "OneBillionWord_get_data self data_path fs state request =
     OneBillionWord_collect self data_path fs request [] state"

section \<open>Saving and loading the training state (blocks/extensions/saveload.py)\<close>

definition LOADED_FROM :: string where
  "LOADED_FROM = ''loaded_from''"

definition SAVING_DONE_TO :: string where
  "SAVING_DONE_TO = ''saving_done_to''"

text \<open>
  The values the extensions write into the log: a path or \<open>None\<close>. Of the main loop
  the extensions touch \<open>main_loop.log.current_row\<close> only; what else it holds is the
  field \<open>components\<close>.
\<close>

datatype pyvalue = PyNone | PyStr string

record 'm main_loop =
  log_current_row :: "string \<rightharpoonup> pyvalue"
  components :: 'm

definition set_row :: "'m main_loop \<Rightarrow> string \<Rightarrow> pyvalue \<Rightarrow> 'm main_loop" where
  "set_row ml key v = ml\<lparr>log_current_row := (log_current_row ml)(key \<mapsto> v)\<rparr>"

text \<open>
  What an extension works on: the files on the disk, the main loop it is attached to,
  and the records handed to the module's logger (level and message).
\<close>

record 'm world =
  disk :: filesystem
  the_main_loop :: "'m main_loop"
  logged :: "(string \<times> string) list"

text \<open>
  \<open>open(path, "wb")\<close>: the operating system may refuse (\<open>refused path\<close> is the
  exception then, and nothing changes); otherwise the file exists and is empty from
  that moment on.
\<close>

definition open_wb :: "(string \<Rightarrow> 'e option) \<Rightarrow> filesystem \<Rightarrow> string \<Rightarrow> 'e + filesystem" where
  "open_wb refused fs path =
     (case refused path of
        Some e \<Rightarrow> Inl e
      | None \<Rightarrow> Inr (fs(path \<mapsto> [])))"

text \<open>
  The \<open>try\<close> block of \<open>SerializeMainLoop.do\<close>. \<open>dill.dump\<close> is a library call: the
  parameter \<open>dump\<close> gives, for the object pickled, the bytes it writes to the
  destination and the exception it ends with, if any. Leaving the \<open>with\<close> block
  closes the destination, so what was written is in the file in both cases. The result
  is the exception that leaves the block, if any, and the world at that moment.
\<close>

definition SerializeMainLoop_try ::
  "(string \<Rightarrow> 'e option) \<Rightarrow> ('m main_loop \<Rightarrow> string \<times> 'e option) \<Rightarrow> string \<Rightarrow> 'm world
     \<Rightarrow> 'e option \<times> 'm world" where
  "SerializeMainLoop_try refused dump path w =
     (let w1 = w\<lparr>the_main_loop := set_row (the_main_loop w) SAVING_DONE_TO (PyStr path)\<rparr>
      in case open_wb refused (disk w1) path of
           Inl e \<Rightarrow> (Some e, w1)
         | Inr fs \<Rightarrow>
             (case dump (the_main_loop w1) of
                (written, raised) \<Rightarrow> (raised, w1\<lparr>disk := fs(path \<mapsto> written)\<rparr>)))"

text \<open>
  \<open>SerializeMainLoop.do\<close>: the bare \<open>except\<close> catches whatever the block raised and
  writes \<open>None\<close> into the log. The first component of the result is the exception
  that reaches the caller.
\<close>

definition SerializeMainLoop_do ::
  "(string \<Rightarrow> 'e option) \<Rightarrow> ('m main_loop \<Rightarrow> string \<times> 'e option) \<Rightarrow> string \<Rightarrow> 'm world
     \<Rightarrow> 'e option \<times> 'm world" where
  "SerializeMainLoop_do refused dump path w =
     (case SerializeMainLoop_try refused dump path w of
        (None, w') \<Rightarrow> (None, w')
      | (Some e, w') \<Rightarrow>
          (None, w'\<lparr>the_main_loop := set_row (the_main_loop w') SAVING_DONE_TO PyNone\<rparr>))"

text \<open>
  \<open>MainLoopStateManager\<close> lives in \<open>blocks.serialization\<close>, outside these files. Its
  \<open>save\<close> is the parameter \<open>manager_save\<close> (the exception raised, if any, and the
  disk it leaves), its \<open>load_to\<close> the parameter \<open>manager_load_to\<close> (the exception
  raised, if any, and the main loop as it leaves it), its \<open>folder\<close> a string.
\<close>

definition SaveTrainingState_try ::
  "('m main_loop \<Rightarrow> filesystem \<Rightarrow> 'e option \<times> filesystem) \<Rightarrow> string \<Rightarrow> 'm world
     \<Rightarrow> 'e option \<times> 'm world" where
  "SaveTrainingState_try manager_save folder w =
     (let w1 = w\<lparr>the_main_loop := set_row (the_main_loop w) SAVING_DONE_TO (PyStr folder)\<rparr>
      in case manager_save (the_main_loop w1) (disk w1) of
           (raised, fs) \<Rightarrow> (raised, w1\<lparr>disk := fs\<rparr>))"

definition SaveTrainingState_do ::
  "('m main_loop \<Rightarrow> filesystem \<Rightarrow> 'e option \<times> filesystem) \<Rightarrow> string \<Rightarrow> 'm world
     \<Rightarrow> 'e option \<times> 'm world" where
  "SaveTrainingState_do manager_save folder w =
     (case SaveTrainingState_try manager_save folder w of
        (None, w') \<Rightarrow> (None, w')
      | (Some e, w') \<Rightarrow>
          (None, w'\<lparr>the_main_loop := set_row (the_main_loop w') SAVING_DONE_TO PyNone\<rparr>))"

definition logger_call :: "string \<Rightarrow> string \<Rightarrow> 'm world \<Rightarrow> 'm world" where
  "logger_call level message w = w\<lparr>logged := logged w @ [(level, message)]\<rparr>"

definition LoadTrainingState_try ::
  "(filesystem \<Rightarrow> 'm main_loop \<Rightarrow> 'e option \<times> 'm main_loop) \<Rightarrow> string \<Rightarrow> 'm world
     \<Rightarrow> 'e option \<times> 'm world" where
  "LoadTrainingState_try manager_load_to folder w =
     (case manager_load_to (disk w) (the_main_loop w) of
        (Some e, ml) \<Rightarrow> (Some e, w\<lparr>the_main_loop := ml\<rparr>)
      | (None, ml) \<Rightarrow> (None, w\<lparr>the_main_loop := set_row ml LOADED_FROM (PyStr folder)\<rparr>))"

text \<open>
  \<open>LoadTrainingState.before_training\<close>; \<open>format_exc\<close> stands for
  \<open>traceback.format_exc()\<close>, the text of the exception being handled.
\<close>

definition LoadTrainingState_before_training ::
  "(filesystem \<Rightarrow> 'm main_loop \<Rightarrow> 'e option \<times> 'm main_loop) \<Rightarrow> ('e \<Rightarrow> string) \<Rightarrow> string
     \<Rightarrow> 'm world \<Rightarrow> 'e option \<times> 'm world" where
  "LoadTrainingState_before_training manager_load_to format_exc folder w =
     (let w1 = logger_call ''info'' (''Loading the state from '' @ folder @ '' into the main loop'') w
      in case LoadTrainingState_try manager_load_to folder w1 of
           (None, w') \<Rightarrow> (None, w')
         | (Some e, w') \<Rightarrow>
             (None, logger_call ''error'' (''Failed to load the state:'' @ [newline] @ format_exc e) w'))"

section \<open>The corpus as a sequence of lines\<close>

text \<open>
  The lines of a text as \<open>readline\<close> delivers them one after the other: each ends
  with its newline, except a last one that the text does not terminate; none is empty.
\<close>

fun lines_of :: "string \<Rightarrow> string list" where
  "lines_of [] = []"
| "lines_of (c # cs) =
     (if c = newline then [c] # lines_of cs
      else (case lines_of cs of [] \<Rightarrow> [[c]] | l # ls \<Rightarrow> (c # l) # ls))"

definition file_lines :: "filesystem \<Rightarrow> string \<Rightarrow> string list" where
  "file_lines fs path = (case fs path of None \<Rightarrow> [] | Some text \<Rightarrow> lines_of text)"

definition corpus_lines :: "filesystem \<Rightarrow> string list \<Rightarrow> string list" where
  "corpus_lines fs paths = concat (map (file_lines fs) paths)"

text \<open>
  What a \<open>TextFile\<close> session still has to deliver: the unread lines of the current
  file, then the lines of the files after it. A session is reading when its handle is
  open, its index is within the list and every listed file exists.
\<close>

definition TextFile_remaining :: "TextFile \<Rightarrow> filesystem \<Rightarrow> reader_state \<Rightarrow> string list" where
  "TextFile_remaining self fs state =
     lines_of (buffer (state_file state)) @
     corpus_lines fs (drop (nat (current_index state + 1)) (tf_files self))"

definition TextFile_reading :: "TextFile \<Rightarrow> filesystem \<Rightarrow> reader_state \<Rightarrow> bool" where
  "TextFile_reading self fs state \<longleftrightarrow>
     \<not> closed (state_file state) \<and> 0 \<le> current_index state \<and>
     current_index state < int (length (tf_files self)) \<and>
     list_all (\<lambda>path. fs path \<noteq> None) (tf_files self)"

text \<open>\<open>n\<close> calls of \<open>get_data(state, None)\<close> one after the other, on the same state.\<close>

fun TextFile_reads ::
  "TextFile \<Rightarrow> filesystem \<Rightarrow> reader_state \<Rightarrow> nat \<Rightarrow> (error + int list) list \<times> reader_state" where
  "TextFile_reads self fs state 0 = ([], state)"
| "TextFile_reads self fs state (Suc n) =
     (case TextFile_get_data self fs state None of
        (r, state') \<Rightarrow>
          (case TextFile_reads self fs state' n of (rs, state'') \<Rightarrow> (r # rs, state'')))"

text \<open>
  The same for a \<open>OneBillionWord\<close> session, over the paths of its partitions in the
  order of \<open>which_partitions\<close>.
\<close>

definition OneBillionWord_paths :: "OneBillionWord \<Rightarrow> string \<Rightarrow> string list" where
  "OneBillionWord_paths self data_path =
     map (partition_path data_path (which_set self)) (which_partitions self)"

definition OneBillionWord_remaining ::
  "OneBillionWord \<Rightarrow> string \<Rightarrow> filesystem \<Rightarrow> reader_state \<Rightarrow> string list" where
  "OneBillionWord_remaining self data_path fs state =
     lines_of (buffer (state_file state)) @
     corpus_lines fs (drop (nat (current_index state + 1)) (OneBillionWord_paths self data_path))"

definition OneBillionWord_reading ::
  "OneBillionWord \<Rightarrow> string \<Rightarrow> filesystem \<Rightarrow> reader_state \<Rightarrow> bool" where
  "OneBillionWord_reading self data_path fs state \<longleftrightarrow>
     \<not> closed (state_file state) \<and> 0 \<le> current_index state \<and>
     current_index state < int (length (which_partitions self)) \<and>
     list_all (\<lambda>path. fs path \<noteq> None) (OneBillionWord_paths self data_path)"

text \<open>
  The sequence of a raw line in words: the line split at whitespace, every word looked
  up in the dictionary with the id \<open>unk\<close> for a word that is not in it, the id \<open>bos\<close>
  in front and the id \<open>eos\<close> behind.
\<close>

definition wrapped_ids :: "(string \<rightharpoonup> int) \<Rightarrow> int \<Rightarrow> int \<Rightarrow> int \<Rightarrow> string \<Rightarrow> int list" where
  "wrapped_ids d bos unk eos line =
     bos # map (\<lambda>word. case d word of None \<Rightarrow> unk | Some v \<Rightarrow> v) (split line) @ [eos]"

text \<open>Calls of \<open>get_data\<close> one after the other on the same state, one per request.\<close>

fun OneBillionWord_reads ::
  "OneBillionWord \<Rightarrow> string \<Rightarrow> filesystem \<Rightarrow> reader_state \<Rightarrow> int list
     \<Rightarrow> (error + int list list) list \<times> reader_state" where
  "OneBillionWord_reads self data_path fs state [] = ([], state)"
| "OneBillionWord_reads self data_path fs state (request # requests) =
     (case OneBillionWord_get_data self data_path fs state request of
        (r, state') \<Rightarrow>
          (case OneBillionWord_reads self data_path fs state' requests of
             (rs, state'') \<Rightarrow> (r # rs, state'')))"

section \<open>Example inputs\<close>

text \<open>The example of the docstring of \<open>TextFile\<close>.\<close>

definition docstring_dictionary :: "string \<rightharpoonup> int" where
  "docstring_dictionary =
     map_of [(''<UNK>'', 0), (''</S>'', 1), (''this'', 2), (''a'', 3), (''one'', 4)]"

definition docstring_fs :: filesystem where
  "docstring_fs =
     map_of [(''sentences.txt'', ''This is a sentence'' @ [newline] @ ''This another one'')]"

definition docstring_reader :: TextFile where
  "docstring_reader =
     \<lparr>tf_files = [''sentences.txt''], tf_dictionary = docstring_dictionary,
      tf_bos_token = None, tf_eos_token = Some ''</S>'', tf_unk_token = ''<UNK>'',
      tf_level = ''word'', tf_preprocess = Some str_lower\<rparr>"

definition docstring_state :: reader_state where
  "docstring_state =
     \<lparr>current_index = 0,
      state_file = \<lparr>buffer = ''This is a sentence'' @ [newline] @ ''This another one'',
                     closed = False\<rparr>\<rparr>"

text \<open>Three files of which the middle one is empty, read without preprocessing.\<close>

definition three_files_fs :: filesystem where
  "three_files_fs =
     map_of [(''a.txt'', ''a one'' @ [newline]), (''empty.txt'', []), (''b.txt'', ''this'' @ [newline])]"

definition three_files_reader :: TextFile where
  "three_files_reader =
     \<lparr>tf_files = [''a.txt'', ''empty.txt'', ''b.txt''], tf_dictionary = docstring_dictionary,
      tf_bos_token = None, tf_eos_token = Some ''</S>'', tf_unk_token = ''<UNK>'',
      tf_level = ''word'', tf_preprocess = None\<rparr>"

definition three_files_state :: reader_state where
  "three_files_state =
     \<lparr>current_index = 0, state_file = \<lparr>buffer = ''a one'' @ [newline], closed = False\<rparr>\<rparr>"

text \<open>
  One training partition of a single line, whose first word is in the dictionary only
  in lower case.
\<close>

definition news_dictionary :: "string \<rightharpoonup> int" where
  "news_dictionary = map_of [(''<S>'', 0), (''</S>'', 1), (''<UNK>'', 2), (''a'', 3), (''one'', 4)]"

definition news_path :: string where
  "news_path = ''data/1-billion-word/training-monolingual.tokenized.shuffled/news.en-00001-of-00100''"

definition news_fs :: filesystem where
  "news_fs = map_of [(news_path, ''A one'' @ [newline])]"

definition news_reader :: OneBillionWord where
  "news_reader =
     \<lparr>which_set = ''training'', which_partitions = [1], obw_dictionary = news_dictionary,
      obw_preprocess = Some str_lower\<rparr>"

definition news_state :: reader_state where
  "news_state =
     \<lparr>current_index = 0, state_file = \<lparr>buffer = ''A one'' @ [newline], closed = False\<rparr>\<rparr>"

text \<open>
  A dictionary of single letters and a file of one line, for a reader of either level.
\<close>

definition letters_dictionary :: "string \<rightharpoonup> int" where
  "letters_dictionary = map_of [(''<UNK>'', 0), (''<S>'', 1), (''</S>'', 2), (''a'', 3), (''b'', 4)]"

definition letters_fs :: filesystem where
  "letters_fs = map_of [(''letters.txt'', ''ab a'' @ [newline])]"

definition letters_reader :: "string \<Rightarrow> TextFile" where
  "letters_reader level =
     \<lparr>tf_files = [''letters.txt''], tf_dictionary = letters_dictionary,
      tf_bos_token = Some ''<S>'', tf_eos_token = Some ''</S>'', tf_unk_token = ''<UNK>'',
      tf_level = level, tf_preprocess = None\<rparr>"

definition letters_state :: reader_state where
  "letters_state =
     \<lparr>current_index = 0, state_file = \<lparr>buffer = ''ab a'' @ [newline], closed = False\<rparr>\<rparr>"

text \<open>
  A reader for a set name that is neither \<open>training\<close> nor \<open>heldout\<close> and a partition
  number beyond 49, with the file that its path names.
\<close>

definition stray_path :: string where
  "stray_path = ''data/1-billion-word/heldout-monolingual.tokenized.shuffled/news.en.heldout-00077-of-00050''"

definition stray_reader :: OneBillionWord where
  "stray_reader =
     \<lparr>which_set = ''validation'', which_partitions = [77], obw_dictionary = Map.empty,
      obw_preprocess = None\<rparr>"

definition stray_fs :: filesystem where
  "stray_fs = map_of [(stray_path, ''a line'' @ [newline])]"

text \<open>
  A disk that holds an earlier snapshot, a destination that can be opened, and a
  serializer that fails after it has written some bytes.
\<close>

definition snapshot_world :: "unit world" where
  "snapshot_world =
     \<lparr>disk = map_of [(''main_loop.pkl'', ''previous snapshot'')],
      the_main_loop = \<lparr>log_current_row = Map.empty, components = ()\<rparr>,
      logged = []\<rparr>"

definition never_refused :: "string \<Rightarrow> error option" where
  "never_refused path = None"

definition failing_dump :: "unit main_loop \<Rightarrow> string \<times> error option" where
  "failing_dump ml = (''half'', Some (IOError ''main_loop.pkl''))"

section \<open>The atomic save of the specification\<close>

text \<open>
  The save as the specification words it: afterwards either the destination holds the
  complete output of a serialization that did not fail, or the disk is as it was and
  the log records \<open>None\<close>.
\<close>

definition atomic_save ::
  "(string \<Rightarrow> 'e option) \<Rightarrow> ('m main_loop \<Rightarrow> string \<times> 'e option) \<Rightarrow> string \<Rightarrow> 'm world \<Rightarrow> bool" where
  "atomic_save refused dump path w \<longleftrightarrow>
     (let w' = snd (SerializeMainLoop_do refused dump path w);
          pickled = set_row (the_main_loop w) SAVING_DONE_TO (PyStr path)
      in (snd (dump pickled) = None \<and> disk w' path = Some (fst (dump pickled))) \<or>
         (disk w' = disk w \<and>
          log_current_row (the_main_loop w') SAVING_DONE_TO = Some PyNone))"

section \<open>Properties\<close>

text \<open>
  The equations of the two loops and of \<open>digits\<close> are unfolded where a proof asks for
  them, not by the simplifier on its own.
\<close>

declare TextFile_next_sentence.simps [simp del]
declare OneBillionWord_collect.simps [simp del]
declare digits.simps [simp del]

subsection \<open>Lines and sessions of \<open>TextFile\<close>\<close>

lemma take_line_empty: "fst (take_line s) = [] \<longleftrightarrow> s = []"
  by (induction s) (auto split: prod.splits)

lemma lines_of_take_line:
  "s \<noteq> [] \<Longrightarrow> lines_of s = fst (take_line s) # lines_of (snd (take_line s))"
proof (induction s)
  case Nil
  then show ?case by simp
next
  case (Cons c cs)
  show ?case
  proof (cases "c = newline")
    case True
    then show ?thesis by simp
  next
    case False
    show ?thesis
    proof (cases cs)
      case Nil
      with False show ?thesis by simp
    next
      case (Cons a list)
      with False Cons.IH show ?thesis by (simp split: prod.splits)
    qed
  qed
qed

lemma lines_of_nonempty: "l \<in> set (lines_of s) \<Longrightarrow> l \<noteq> []"
  by (induction s arbitrary: l) (auto split: if_splits list.splits)

lemma py_index_nonneg:
  "0 \<le> i \<Longrightarrow> i < int (length xs) \<Longrightarrow> py_index xs i = Inr (xs ! nat i)"
  by (simp add: py_index_def Let_def)

lemma TextFile_next_sentence_reading:
  "TextFile_reading self fs state \<Longrightarrow>
   (case TextFile_remaining self fs state of
      [] \<Rightarrow> fst (TextFile_next_sentence self fs state) = Inl StopIteration \<and>
            closed (state_file (snd (TextFile_next_sentence self fs state))) 
    | l # ls \<Rightarrow> fst (TextFile_next_sentence self fs state) = Inr l \<and>
            TextFile_reading self fs (snd (TextFile_next_sentence self fs state)) \<and>
            TextFile_remaining self fs (snd (TextFile_next_sentence self fs state)) = ls)"
proof (induction self fs state rule: TextFile_next_sentence.induct)
  case (1 self fs state)
  let ?f = "state_file state"
  let ?l = "fst (take_line (buffer ?f))"
  let ?r = "snd (take_line (buffer ?f))"
  from "1.prems" have open_: "\<not> closed ?f" and lo: "0 \<le> current_index state"
    and hi: "current_index state < int (length (tf_files self))"
    and ex: "list_all (\<lambda>path. fs path \<noteq> None) (tf_files self)"
    by (simp_all add: TextFile_reading_def)
  have rl: "readline ?f = Inr (?l, ?f\<lparr>buffer := ?r\<rparr>)"
    using open_ by (simp add: readline_def split: prod.splits)
  show ?case
  proof (cases "buffer ?f = []")
    case False
    then have ne: "?l \<noteq> []" by (simp add: take_line_empty)
    have step: "TextFile_next_sentence self fs state = (Inr ?l, state\<lparr>state_file := ?f\<lparr>buffer := ?r\<rparr>\<rparr>)"
      using rl ne by (subst TextFile_next_sentence.simps) simp
    have rem: "TextFile_remaining self fs state =
        ?l # TextFile_remaining self fs (state\<lparr>state_file := ?f\<lparr>buffer := ?r\<rparr>\<rparr>)"
      using lines_of_take_line [OF False] by (simp add: TextFile_remaining_def)
    show ?thesis
      using step rem "1.prems" by (simp add: TextFile_reading_def)
  next
    case True
    then have emp: "?l = []" and r: "?r = []" by simp_all
    show ?thesis
    proof (cases "current_index state = int (length (tf_files self)) - 1")
      case last: True
      have step: "TextFile_next_sentence self fs state =
          (Inl StopIteration, state\<lparr>state_file := close (?f\<lparr>buffer := ?r\<rparr>)\<rparr>)"
        using rl emp last by (subst TextFile_next_sentence.simps) simp
      have "TextFile_remaining self fs state = []"
        using True last by (simp add: TextFile_remaining_def corpus_lines_def)
      with step show ?thesis by (simp add: close_def)
    next
      case notlast: False
      let ?i = "current_index state + 1"
      from notlast lo hi have i: "0 \<le> ?i" "?i < int (length (tf_files self))" by simp_all
      then have n: "nat ?i < length (tf_files self)" by simp
      with ex obtain body where body: "fs (tf_files self ! nat ?i) = Some body"
        by (auto simp: list_all_length)
      let ?g = "\<lparr>buffer = body, closed = False\<rparr>"
      let ?st = "state\<lparr>current_index := ?i, state_file := ?g\<rparr>"
      have op: "TextFile_open_file self fs ?i = Inr ?g"
        using i body by (simp add: TextFile_open_file_def py_index_nonneg open_file_def)
      have step: "TextFile_next_sentence self fs state = TextFile_next_sentence self fs ?st"
        using rl emp notlast op by (subst TextFile_next_sentence.simps) simp
      have rd: "TextFile_reading self fs ?st"
        using i ex by (simp add: TextFile_reading_def)
      have "drop (nat ?i) (tf_files self) = tf_files self ! nat ?i # drop (Suc (nat ?i)) (tf_files self)"
        using n by (simp add: Cons_nth_drop_Suc)
      moreover have "Suc (nat ?i) = nat (?i + 1)" using i by simp
      ultimately have rem: "TextFile_remaining self fs ?st = TextFile_remaining self fs state"
        using True body by (simp add: TextFile_remaining_def corpus_lines_def file_lines_def)
      have IH: "case TextFile_remaining self fs ?st of
          [] \<Rightarrow> fst (TextFile_next_sentence self fs ?st) = Inl StopIteration \<and>
                closed (state_file (snd (TextFile_next_sentence self fs ?st)))
        | l # ls \<Rightarrow> fst (TextFile_next_sentence self fs ?st) = Inr l \<and>
                TextFile_reading self fs (snd (TextFile_next_sentence self fs ?st)) \<and>
                TextFile_remaining self fs (snd (TextFile_next_sentence self fs ?st)) = ls"
        using "1.IH" [OF rl refl emp notlast op rd] .
      show ?thesis using IH unfolding step rem .
    qed
  qed
qed

lemma TextFile_get_data_reading:
  assumes "TextFile_reading self fs state"
  shows "case TextFile_remaining self fs state of
      [] \<Rightarrow> fst (TextFile_get_data self fs state None) = Inl StopIteration \<and>
            closed (state_file (snd (TextFile_get_data self fs state None)))
    | l # ls \<Rightarrow> fst (TextFile_get_data self fs state None) = TextFile_numberize self l \<and>
            TextFile_reading self fs (snd (TextFile_get_data self fs state None)) \<and>
            TextFile_remaining self fs (snd (TextFile_get_data self fs state None)) = ls"
  using TextFile_next_sentence_reading [OF assms]
  by (cases "TextFile_next_sentence self fs state")
     (auto simp: TextFile_get_data_def split: list.splits sum.splits)

lemma TextFile_get_data_closed:
  "closed (state_file state) \<Longrightarrow> TextFile_get_data self fs state request =
     (Inl ValueError, state)"
  by (subst TextFile_get_data_def, subst TextFile_next_sentence.simps)
     (simp add: readline_def)

lemma TextFile_reads_reading:
  "TextFile_reading self fs state \<Longrightarrow> TextFile_remaining self fs state = ls \<Longrightarrow>
   fst (TextFile_reads self fs state (Suc (length ls))) =
     map (TextFile_numberize self) ls @ [Inl StopIteration]"
proof (induction ls arbitrary: state)
  case Nil
  with TextFile_get_data_reading [of self fs state] show ?case
    by (auto split: prod.splits)
next
  case (Cons l ls)
  let ?st = "snd (TextFile_get_data self fs state None)"
  from Cons.prems TextFile_get_data_reading [of self fs state]
  have r: "fst (TextFile_get_data self fs state None) = TextFile_numberize self l"
    and rd: "TextFile_reading self fs ?st" and rem: "TextFile_remaining self fs ?st = ls"
    by simp_all
  have "fst (TextFile_reads self fs state (Suc (length (l # ls)))) =
      fst (TextFile_get_data self fs state None) # fst (TextFile_reads self fs ?st (Suc (length ls)))"
    by (simp split: prod.splits)
  with r Cons.IH [OF rd rem] show ?case by simp
qed

lemma TextFile_open_reading:
  assumes "tf_files self \<noteq> []" and "list_all (\<lambda>path. fs path \<noteq> None) (tf_files self)"
  shows "\<exists>state. TextFile_open self fs = Inr state \<and> TextFile_reading self fs state \<and>
            TextFile_remaining self fs state = corpus_lines fs (tf_files self)"
proof -
  from assms obtain p ps where ps: "tf_files self = p # ps" by (cases "tf_files self") auto
  with assms(2) obtain body where body: "fs p = Some body" by auto
  show ?thesis
    using ps body assms(2)
    by (simp add: TextFile_open_def TextFile_open_file_def py_index_def open_file_def
        TextFile_reading_def TextFile_remaining_def corpus_lines_def file_lines_def)
qed

lemma numberize_total:
  "d unk = Some u \<Longrightarrow>
   numberize d unk ws = Inr (map (\<lambda>word. case d word of None \<Rightarrow> u | Some v \<Rightarrow> v) ws)"
  by (induction ws) (simp_all add: getitem_def)

lemma marker_total:
  "\<not> (case token of None \<Rightarrow> False | Some t \<Rightarrow> d t = None) \<Longrightarrow> \<exists>m. marker d token = Inr m"
  by (cases token) (auto simp: marker_def getitem_def)

lemma TextFile_numberize_no_KeyError:
  assumes "TextFile_init files d bos eos unk level pp = Inr self"
  shows "\<exists>ids. TextFile_numberize self sentence = Inr ids"
proof -
  from assms obtain u where u: "d unk = Some u"
    by (auto simp: TextFile_init_def split: if_splits)
  from assms have self: "self = \<lparr>tf_files = files, tf_dictionary = d, tf_bos_token = bos,
      tf_eos_token = eos, tf_unk_token = unk, tf_level = level, tf_preprocess = pp\<rparr>"
    by (auto simp: TextFile_init_def split: if_splits)
  from assms have "\<not> (case bos of None \<Rightarrow> False | Some t \<Rightarrow> d t = None)"
    by (auto simp: TextFile_init_def split: if_splits)
  then obtain b where b: "marker d bos = Inr b"
    using marker_total by blast
  from assms have "\<not> (case eos of None \<Rightarrow> False | Some t \<Rightarrow> d t = None)"
    by (auto simp: TextFile_init_def split: if_splits)
  then obtain e where e: "marker d eos = Inr e"
    using marker_total by blast
  show ?thesis
    by (simp add: self TextFile_numberize_def Let_def b e numberize_total [of d unk u, OF u])
qed

subsection \<open>Evaluating the readers on concrete inputs\<close>

lemmas eval_defs = TextFile_init_def TextFile_open_def TextFile_open_file_def py_index_def open_file_def
  TextFile_get_data_def TextFile_numberize_def marker_def getitem_def split_def is_space_def
  readline_def close_def newline_def Let_def

lemmas docstring_defs = docstring_dictionary_def docstring_fs_def docstring_reader_def
  docstring_state_def str_lower_def

text \<open>
  C5: with the dictionary of the docstring, no beginning-of-sentence token, the default
  end-of-sentence and unknown tokens and \<open>str.lower\<close> as preprocessing, the reader
  is constructed, and the first read of a file that starts with the line
  \<open>This is a sentence\<close> returns \<open>[2, 0, 3, 0, 1]\<close>: the ids of \<open>this\<close> and \<open>a\<close>, the
  unknown id 0 for \<open>is\<close> and \<open>sentence\<close>, nothing in front, the end-of-sentence id 1
  at the end.
\<close>

theorem TextFile_docstring_example:
  "TextFile_init [''sentences.txt''] docstring_dictionary None (Some ''</S>'') ''<UNK>'' ''word''
       (Some str_lower) = Inr docstring_reader \<and>
   TextFile_open docstring_reader docstring_fs = Inr docstring_state \<and>
   fst (TextFile_get_data docstring_reader docstring_fs docstring_state None) =
     Inr [2, 0, 3, 0, 1]"
  by (simp add: eval_defs docstring_defs TextFile_next_sentence.simps)

subsection \<open>Construction of a \<open>TextFile\<close>\<close>

lemma TextFile_next_sentence_no_KeyError:
  "fst (TextFile_next_sentence self fs state) \<noteq> Inl (KeyError k)"
proof (induction self fs state rule: TextFile_next_sentence.induct)
  case (1 self fs state)
  show ?case
  proof (cases "readline (state_file state)")
    case (Inl e)
    then have "e = ValueError" by (auto simp: readline_def split: if_splits prod.splits)
    with Inl show ?thesis by (subst TextFile_next_sentence.simps) simp
  next
    case (Inr p)
    obtain sentence f where p: "p = (sentence, f)" by (cases p)
    show ?thesis
    proof (cases "sentence = [] \<and> current_index state \<noteq> int (length (tf_files self)) - 1")
      case False
      with Inr p show ?thesis by (subst TextFile_next_sentence.simps) auto
    next
      case True
      show ?thesis
      proof (cases "TextFile_open_file self fs (current_index state + 1)")
        case (Inl e)
        then have "e \<noteq> KeyError k"
          by (auto simp: TextFile_open_file_def py_index_def open_file_def Let_def
              split: if_splits sum.splits option.splits)
        with Inl Inr p True show ?thesis by (subst TextFile_next_sentence.simps) simp
      next
        case (Inr g)
        from "1.IH" [OF \<open>readline (state_file state) = Inr p\<close> p [symmetric] _ _ Inr] True
        have "fst (TextFile_next_sentence self fs
            (state\<lparr>current_index := current_index state + 1, state_file := g\<rparr>)) \<noteq> Inl (KeyError k)"
          by simp
        with Inr \<open>readline (state_file state) = Inr p\<close> p True show ?thesis
          by (subst TextFile_next_sentence.simps) simp
      qed
    qed
  qed
qed

text \<open>
  C6: the constructor of \<open>TextFile\<close> fails, with the \<open>ValueError\<close> that is the source's
  configuration error, exactly when the unknown token is not in the dictionary or a
  beginning- or end-of-sentence token that is not \<open>None\<close> is not in it; otherwise it
  returns a reader, and no read of that reader ever raises a \<open>KeyError\<close> for a missing
  token; with both sentence markers disabled only the unknown token is required.
\<close>

theorem TextFile_init_fails_iff_token_missing:
  "(TextFile_init files d bos eos unk level pp = Inl ValueError \<longleftrightarrow>
      (\<exists>b. bos = Some b \<and> d b = None) \<or> (\<exists>e. eos = Some e \<and> d e = None) \<or> d unk = None) \<and>
   (TextFile_init files d bos eos unk level pp \<noteq> Inl ValueError \<longrightarrow>
      (\<exists>self. TextFile_init files d bos eos unk level pp = Inr self \<and>
         (\<forall>fs state request k.
            fst (TextFile_get_data self fs state request) \<noteq> Inl (KeyError k)))) \<and>
   (d unk \<noteq> None \<longrightarrow> (\<exists>self. TextFile_init files d None None unk level pp = Inr self))"
proof (intro conjI impI)
  show "TextFile_init files d bos eos unk level pp = Inl ValueError \<longleftrightarrow>
      (\<exists>b. bos = Some b \<and> d b = None) \<or> (\<exists>e. eos = Some e \<and> d e = None) \<or> d unk = None"
    by (cases bos; cases eos) (auto simp: TextFile_init_def)
next
  assume "TextFile_init files d bos eos unk level pp \<noteq> Inl ValueError"
  then obtain self where self: "TextFile_init files d bos eos unk level pp = Inr self"
    by (auto simp: TextFile_init_def split: if_splits)
  have "fst (TextFile_get_data self fs state request) \<noteq> Inl (KeyError k)" for fs state request k
  proof (cases "TextFile_next_sentence self fs state")
    case (Pair r state')
    show ?thesis
    proof (cases r)
      case (Inl e)
      with Pair TextFile_next_sentence_no_KeyError [of self fs state k] show ?thesis
        by (auto simp: TextFile_get_data_def)
    next
      case (Inr sentence)
      with Pair TextFile_numberize_no_KeyError [OF self, of sentence] show ?thesis
        by (auto simp: TextFile_get_data_def)
    qed
  qed
  with self show "\<exists>self. TextFile_init files d bos eos unk level pp = Inr self \<and>
         (\<forall>fs state request k. fst (TextFile_get_data self fs state request) \<noteq> Inl (KeyError k))"
    by blast
next
  assume "d unk \<noteq> None"
  then show "\<exists>self. TextFile_init files d None None unk level pp = Inr self"
    by (simp add: TextFile_init_def)
qed

theorem TextFile_init_fails_iff_token_missing_witness:
  "TextFile_init [''sentences.txt''] docstring_dictionary (Some ''<S>'') (Some ''</S>'') ''<UNK>''
       ''word'' None = Inl ValueError \<and>
   TextFile_init [''sentences.txt''] docstring_dictionary None (Some ''</S>'') ''<UNK>'' ''word''
       (Some str_lower) \<noteq> Inl ValueError \<and>
   docstring_dictionary ''<UNK>'' \<noteq> None \<and>
   (\<exists>self. TextFile_init [''sentences.txt''] docstring_dictionary None None ''<UNK>'' ''word'' None =
       Inr self) \<and>
   (\<exists>self. TextFile_init [''sentences.txt''] docstring_dictionary None (Some ''</S>'') ''<UNK>''
        ''word'' (Some str_lower) = Inr self \<and>
      (\<forall>fs state request k. fst (TextFile_get_data self fs state request) \<noteq> Inl (KeyError k)))"
proof -
  have a: "docstring_dictionary ''<UNK>'' \<noteq> None" "docstring_dictionary ''</S>'' \<noteq> None"
    "docstring_dictionary ''<S>'' = None"
    by (simp_all add: docstring_dictionary_def)
  have b: "TextFile_init [''sentences.txt''] docstring_dictionary None (Some ''</S>'') ''<UNK>'' ''word''
       (Some str_lower) \<noteq> Inl ValueError"
    using a by (simp add: TextFile_init_def)
  have c: "TextFile_init [''sentences.txt''] docstring_dictionary (Some ''<S>'') (Some ''</S>'') ''<UNK>''
       ''word'' None = Inl ValueError"
    using a TextFile_init_fails_iff_token_missing [of "[''sentences.txt'']" docstring_dictionary
        "Some ''<S>''" "Some ''</S>''" "''<UNK>''" "''word''" None, THEN conjunct1]
    by simp
  note d = TextFile_init_fails_iff_token_missing [of "[''sentences.txt'']" docstring_dictionary
        None "Some ''</S>''" "''<UNK>''" "''word''" "Some str_lower",
        THEN conjunct2, THEN conjunct1, rule_format, OF b]
  note e = TextFile_init_fails_iff_token_missing [of "[''sentences.txt'']" docstring_dictionary
        None None "''<UNK>''" "''word''" None, THEN conjunct2, THEN conjunct2, rule_format, OF a(1)]
  from a(1) b c d e show ?thesis
    by (intro conjI)
qed

lemmas three_files_defs = three_files_fs_def three_files_reader_def three_files_state_def
  docstring_dictionary_def

subsection \<open>Successive reads of a \<open>TextFile\<close>\<close>

text \<open>
  C2: for a constructed \<open>TextFile\<close> over a non-empty list of existing files, \<open>open\<close>
  succeeds, and on the state it returns the successive calls \<open>get_data(state, None)\<close>
  return the numberized lines of all the files in the order of the list, one line per
  call, whatever the number of empty files in between; every such line is a non-empty
  string and is numberized without an error; the call after the last line raises
  \<open>StopIteration\<close>.
\<close>

theorem TextFile_reads_corpus_in_order:
  assumes "TextFile_init files d bos eos unk level pp = Inr self"
    and "files \<noteq> []"
    and "list_all (\<lambda>path. fs path \<noteq> None) files"
  shows "\<exists>state. TextFile_open self fs = Inr state \<and>
      fst (TextFile_reads self fs state (Suc (length (corpus_lines fs files)))) =
        map (TextFile_numberize self) (corpus_lines fs files) @ [Inl StopIteration] \<and>
      list_all (\<lambda>l. l \<noteq> [] \<and> (\<exists>ids. TextFile_numberize self l = Inr ids))
        (corpus_lines fs files)"
proof -
  from assms(1) have files: "tf_files self = files"
    by (auto simp: TextFile_init_def split: if_splits)
  from TextFile_open_reading [of self fs] assms(2,3) files
  obtain state where st: "TextFile_open self fs = Inr state" "TextFile_reading self fs state"
    "TextFile_remaining self fs state = corpus_lines fs files"
    by auto
  have "l \<noteq> []" if "l \<in> set (corpus_lines fs files)" for l
    using that lines_of_nonempty
    by (auto simp: corpus_lines_def file_lines_def split: option.splits)
  then have "list_all (\<lambda>l. l \<noteq> [] \<and> (\<exists>ids. TextFile_numberize self l = Inr ids))
        (corpus_lines fs files)"
    using TextFile_numberize_no_KeyError [OF assms(1)] by (simp add: list_all_iff)
  with st(1) TextFile_reads_reading [OF st(2,3)] show ?thesis by simp
qed

theorem TextFile_reads_corpus_in_order_witness:
  "TextFile_init [''a.txt'', ''empty.txt'', ''b.txt''] docstring_dictionary None (Some ''</S>'')
       ''<UNK>'' ''word'' None = Inr three_files_reader \<and>
   list_all (\<lambda>path. three_files_fs path \<noteq> None) [''a.txt'', ''empty.txt'', ''b.txt''] \<and>
   TextFile_open three_files_reader three_files_fs = Inr three_files_state \<and>
   fst (TextFile_reads three_files_reader three_files_fs three_files_state 3) =
     [Inr [3, 4, 1], Inr [2, 1], Inl StopIteration]"
proof -
  have i: "TextFile_init [''a.txt'', ''empty.txt'', ''b.txt''] docstring_dictionary None
      (Some ''</S>'') ''<UNK>'' ''word'' None = Inr three_files_reader"
    by (simp add: TextFile_init_def three_files_defs)
  have e: "list_all (\<lambda>path. three_files_fs path \<noteq> None) [''a.txt'', ''empty.txt'', ''b.txt'']"
    by (simp add: three_files_fs_def)
  have n: "[''a.txt'', ''empty.txt'', ''b.txt''] \<noteq> []" by simp
  have c: "corpus_lines three_files_fs [''a.txt'', ''empty.txt'', ''b.txt''] =
      [''a one'' @ [newline], ''this'' @ [newline]]"
    by (simp add: corpus_lines_def file_lines_def three_files_fs_def newline_def)
  have o: "TextFile_open three_files_reader three_files_fs = Inr three_files_state"
    by (simp add: eval_defs three_files_defs)
  have m: "map (TextFile_numberize three_files_reader) [''a one'' @ [newline], ''this'' @ [newline]] =
      [Inr [3, 4, 1], Inr [2, 1]]"
    by (simp add: eval_defs three_files_defs)
  from TextFile_reads_corpus_in_order [OF i n e] o c m
  have "fst (TextFile_reads three_files_reader three_files_fs three_files_state 3) =
     [Inr [3, 4, 1], Inr [2, 1], Inl StopIteration]"
    by (simp add: numeral_3_eq_3)
  with i e o show ?thesis by simp
qed

subsection \<open>Batches of \<open>OneBillionWord\<close>\<close>

lemma OneBillionWord_numberize_wrapped:
  assumes "obw_dictionary self ''<S>'' = Some bos" and "obw_dictionary self ''<UNK>'' = Some unk"
    and "obw_dictionary self ''</S>'' = Some eos"
  shows "OneBillionWord_numberize self line = Inr (wrapped_ids (obw_dictionary self) bos unk eos line)"
  using assms(1,3) numberize_total [of "obw_dictionary self" "''<UNK>''" unk, OF assms(2)]
  by (simp add: OneBillionWord_numberize_def getitem_def wrapped_ids_def)

lemma OneBillionWord_collect_reading:
  "obw_dictionary self ''<S>'' = Some bos \<Longrightarrow> obw_dictionary self ''<UNK>'' = Some unk \<Longrightarrow>
   obw_dictionary self ''</S>'' = Some eos \<Longrightarrow>
   OneBillionWord_reading self data_path fs state \<Longrightarrow>
    fst (OneBillionWord_collect self data_path fs request data state) =
      (if int (length data) < request \<and> data = [] \<and>
          OneBillionWord_remaining self data_path fs state = []
       then Inl StopIteration
       else Inr (data @ map (wrapped_ids (obw_dictionary self) bos unk eos)
                  (take (nat (request - int (length data)))
                     (OneBillionWord_remaining self data_path fs state))))"
proof (induction self data_path fs request data state rule: OneBillionWord_collect.induct)
  case (1 self data_path fs request data state)
  note d = "1.prems"(1-3)
  let ?f = "state_file state"
  let ?l = "fst (take_line (buffer ?f))"
  let ?r = "snd (take_line (buffer ?f))"
  let ?w = "wrapped_ids (obw_dictionary self) bos unk eos"
  let ?paths = "OneBillionWord_paths self data_path"
  from "1.prems"(4) have open_: "\<not> closed ?f" and lo: "0 \<le> current_index state"
    and hi: "current_index state < int (length (which_partitions self))"
    and ex: "list_all (\<lambda>path. fs path \<noteq> None) ?paths"
    by (simp_all add: OneBillionWord_reading_def)
  have rl: "readline ?f = Inr (?l, ?f\<lparr>buffer := ?r\<rparr>)"
    using open_ by (simp add: readline_def split: prod.splits)
  show ?case
  proof (cases "int (length data) < request")
    case False
    then show ?thesis by (subst OneBillionWord_collect.simps) simp
  next
    case more: True
    show ?thesis
    proof (cases "buffer ?f = []")
      case False
      then have ne: "?l \<noteq> []" by (simp add: take_line_empty)
      let ?st = "state\<lparr>state_file := ?f\<lparr>buffer := ?r\<rparr>\<rparr>"
      have nb: "OneBillionWord_numberize self ?l = Inr (?w ?l)"
        using d by (rule OneBillionWord_numberize_wrapped)
      have step: "OneBillionWord_collect self data_path fs request data state =
          OneBillionWord_collect self data_path fs request (data @ [?w ?l]) ?st"
        using more rl ne nb by (subst OneBillionWord_collect.simps) simp
      have rem: "OneBillionWord_remaining self data_path fs state =
          ?l # OneBillionWord_remaining self data_path fs ?st"
        using lines_of_take_line [OF False] by (simp add: OneBillionWord_remaining_def)
      have rd: "OneBillionWord_reading self data_path fs ?st"
        using "1.prems"(4) by (simp add: OneBillionWord_reading_def)
      note IH = "1.IH"(2) [OF more rl refl ne nb d rd]
      have k: "nat (request - int (length data)) =
          Suc (nat (request - int (length (data @ [?w ?l]))))"
        using more by simp
      have tk: "take (nat (request - int (length data)))
            (?l # OneBillionWord_remaining self data_path fs ?st) =
          ?l # take (nat (request - int (length (data @ [?w ?l]))))
            (OneBillionWord_remaining self data_path fs ?st)"
        by (simp only: k take_Suc_Cons)
      show ?thesis unfolding step rem tk using IH by simp
    next
      case True
      then have emp: "?l = []" and r: "?r = []" by simp_all
      show ?thesis
      proof (cases "current_index state = int (length (which_partitions self)) - 1")
        case last: True
        have "OneBillionWord_remaining self data_path fs state = []"
          using True last
          by (simp add: OneBillionWord_remaining_def corpus_lines_def OneBillionWord_paths_def)
        moreover have "fst (OneBillionWord_collect self data_path fs request data state) =
            (if data = [] then Inl StopIteration else Inr data)"
          using more rl emp last by (subst OneBillionWord_collect.simps) simp
        ultimately show ?thesis using more by simp
      next
        case notlast: False
        let ?i = "current_index state + 1"
        from notlast lo hi have i: "0 \<le> ?i" "?i < int (length (which_partitions self))"
          by simp_all
        then have n: "nat ?i < length ?paths" by (simp add: OneBillionWord_paths_def)
        with ex obtain body where body: "fs (?paths ! nat ?i) = Some body"
          by (auto simp: list_all_length)
        let ?g = "\<lparr>buffer = body, closed = False\<rparr>"
        let ?st = "state\<lparr>current_index := ?i, state_file := ?g\<rparr>"
        have op: "OneBillionWord_open_file self data_path fs ?i = Inr ?g"
          using i body n
          by (simp add: OneBillionWord_open_file_def py_index_def open_file_def
              OneBillionWord_paths_def)
        have step: "OneBillionWord_collect self data_path fs request data state =
            OneBillionWord_collect self data_path fs request data ?st"
          using more rl emp notlast op by (subst OneBillionWord_collect.simps) simp
        have rd: "OneBillionWord_reading self data_path fs ?st"
          using i ex by (simp add: OneBillionWord_reading_def)
        have "drop (nat ?i) ?paths = ?paths ! nat ?i # drop (Suc (nat ?i)) ?paths"
          using n by (simp add: Cons_nth_drop_Suc)
        moreover have "Suc (nat ?i) = nat (?i + 1)" using i by simp
        ultimately have rem: "OneBillionWord_remaining self data_path fs ?st =
            OneBillionWord_remaining self data_path fs state"
          using True body
          by (simp add: OneBillionWord_remaining_def corpus_lines_def file_lines_def)
        note IH = "1.IH"(1) [OF more rl refl emp notlast op d rd]
        show ?thesis using IH unfolding step rem .
      qed
    qed
  qed
qed

lemma OneBillionWord_collect_preprocess:
  "OneBillionWord_collect (self\<lparr>obw_preprocess := pp\<rparr>) data_path fs request data state =
   OneBillionWord_collect self data_path fs request data state"
proof (induction self data_path fs request data state rule: OneBillionWord_collect.induct)
  case (1 self data_path fs request data state)
  have a: "OneBillionWord_open_file (self\<lparr>obw_preprocess := pp\<rparr>) data_path fs i =
      OneBillionWord_open_file self data_path fs i" for i
    by (simp add: OneBillionWord_open_file_def split: sum.splits)
  have b: "OneBillionWord_numberize (self\<lparr>obw_preprocess := pp\<rparr>) sentence =
      OneBillionWord_numberize self sentence" for sentence
    by (simp add: OneBillionWord_numberize_def split: sum.splits)
  show ?case
    using "1.IH"
    by (simp add: OneBillionWord_collect.simps [of "self\<lparr>obw_preprocess := pp\<rparr>" data_path fs request data state]
        OneBillionWord_collect.simps [of self data_path fs request data state] a b
        split: sum.splits prod.splits)
qed

lemma OneBillionWord_get_data_closed:
  "closed (state_file state) \<Longrightarrow> 0 < request \<Longrightarrow>
   OneBillionWord_get_data self data_path fs state request = (Inl ValueError, state)"
  by (subst OneBillionWord_get_data_def, subst OneBillionWord_collect.simps)
     (simp add: readline_def)

lemmas letters_defs = letters_dictionary_def letters_fs_def letters_reader_def letters_state_def

lemmas news_defs = news_dictionary_def news_path_def news_fs_def news_reader_def news_state_def

lemma replicate_numeral_eval: "replicate (numeral k) x = x # replicate (pred_numeral k) x"
  by (simp add: numeral_eq_Suc)

lemmas path_defs = partition_path_def path_join_def join_step_def format_05d_def digits.simps
  replicate_numeral_eval

lemmas obw_eval_defs = OneBillionWord_open_def OneBillionWord_open_file_def
  OneBillionWord_get_data_def OneBillionWord_numberize_def

lemma news_open: "OneBillionWord_open news_reader ''data'' news_fs = Inr news_state"
  by (simp add: obw_eval_defs path_defs py_index_def open_file_def news_defs)

lemma news_reading: "OneBillionWord_reading news_reader ''data'' news_fs news_state"
  by (simp add: OneBillionWord_reading_def OneBillionWord_paths_def path_defs news_defs)

lemma news_remaining:
  "OneBillionWord_remaining news_reader ''data'' news_fs news_state = [''A one'' @ [newline]]"
  by (simp add: OneBillionWord_remaining_def OneBillionWord_paths_def corpus_lines_def
      news_defs newline_def)

text \<open>
  C9: \<open>OneBillionWord.get_data\<close> returns the same result and the same state for every
  value of the \<open>preprocess\<close> attribute, \<open>None\<close> included; and on a reading session
  whose dictionary holds \<open><S>\<close>, \<open><UNK>\<close> and \<open></S>\<close>, a positive request returns the
  sequences of the next raw lines: each line split at whitespace, its words looked up
  with the id of \<open><UNK>\<close> as fallback, between the ids of \<open><S>\<close> and \<open></S>\<close>.
\<close>

theorem OneBillionWord_never_preprocesses:
  "OneBillionWord_get_data (self\<lparr>obw_preprocess := pp\<rparr>) data_path fs state request =
     OneBillionWord_get_data self data_path fs state request \<and>
   (obw_dictionary self ''<S>'' = Some bos \<and> obw_dictionary self ''<UNK>'' = Some unk \<and>
    obw_dictionary self ''</S>'' = Some eos \<and>
    OneBillionWord_reading self data_path fs state \<and> 0 < request \<longrightarrow>
    fst (OneBillionWord_get_data self data_path fs state request) =
      (if OneBillionWord_remaining self data_path fs state = [] then Inl StopIteration
       else Inr (map (wrapped_ids (obw_dictionary self) bos unk eos)
                  (take (nat request) (OneBillionWord_remaining self data_path fs state)))))"
proof (intro conjI impI)
  show "OneBillionWord_get_data (self\<lparr>obw_preprocess := pp\<rparr>) data_path fs state request =
     OneBillionWord_get_data self data_path fs state request"
    by (simp add: OneBillionWord_get_data_def OneBillionWord_collect_preprocess)
next
  assume a: "obw_dictionary self ''<S>'' = Some bos \<and> obw_dictionary self ''<UNK>'' = Some unk \<and>
    obw_dictionary self ''</S>'' = Some eos \<and>
    OneBillionWord_reading self data_path fs state \<and> 0 < request"
  then have "fst (OneBillionWord_collect self data_path fs request [] state) =
      (if int (length ([] :: int list list)) < request \<and> ([] :: int list list) = [] \<and>
          OneBillionWord_remaining self data_path fs state = []
       then Inl StopIteration
       else Inr ([] @ map (wrapped_ids (obw_dictionary self) bos unk eos)
                  (take (nat (request - int (length ([] :: int list list))))
                     (OneBillionWord_remaining self data_path fs state))))"
    by (intro OneBillionWord_collect_reading) simp_all
  with a show "fst (OneBillionWord_get_data self data_path fs state request) =
      (if OneBillionWord_remaining self data_path fs state = [] then Inl StopIteration
       else Inr (map (wrapped_ids (obw_dictionary self) bos unk eos)
                  (take (nat request) (OneBillionWord_remaining self data_path fs state))))"
    by (simp add: OneBillionWord_get_data_def)
qed

theorem OneBillionWord_never_preprocesses_witness:
  "news_dictionary ''<S>'' = Some 0 \<and> news_dictionary ''<UNK>'' = Some 2 \<and>
   news_dictionary ''</S>'' = Some 1 \<and>
   OneBillionWord_reading news_reader ''data'' news_fs news_state \<and> (0::int) < 2 \<and>
   obw_preprocess news_reader = Some str_lower \<and>
   OneBillionWord_get_data (news_reader\<lparr>obw_preprocess := None\<rparr>) ''data'' news_fs news_state 2 =
     OneBillionWord_get_data news_reader ''data'' news_fs news_state 2 \<and>
   fst (OneBillionWord_get_data news_reader ''data'' news_fs news_state 2) = Inr [[0, 2, 4, 1]]"
proof -
  have d: "obw_dictionary news_reader ''<S>'' = Some 0 \<and>
      obw_dictionary news_reader ''<UNK>'' = Some 2 \<and>
      obw_dictionary news_reader ''</S>'' = Some 1 \<and>
      OneBillionWord_reading news_reader ''data'' news_fs news_state \<and> (0::int) < 2"
    using news_reading by (simp add: news_reader_def news_dictionary_def)
  note t = OneBillionWord_never_preprocesses [where self = news_reader and pp = None
    and data_path = "''data''" and fs = news_fs and state = news_state and request = 2
    and bos = 0 and unk = 2 and eos = 1]
  have w: "wrapped_ids (obw_dictionary news_reader) 0 2 1 (''A one'' @ [newline]) = [0, 2, 4, 1]"
    by (simp add: wrapped_ids_def split_def is_space_def newline_def news_reader_def
        news_dictionary_def)
  from t [THEN conjunct2, rule_format, OF d] w
  have "fst (OneBillionWord_get_data news_reader ''data'' news_fs news_state 2) = Inr [[0, 2, 4, 1]]"
    by (simp add: news_remaining)
  with d t [THEN conjunct1] show ?thesis
    by (simp add: news_reader_def news_dictionary_def)
qed

text \<open>
  C3, at the input where the code leaves the claim: a partition of one line, read with
  two requests of 2. The first call returns the one remaining sequence as a partial
  batch; the following call does not raise \<open>StopIteration\<close> but the \<open>ValueError\<close> of
  \<open>readline\<close> on the handle that the first call closed.
\<close>

theorem OneBillionWord_call_after_partial_batch:
  "OneBillionWord_open news_reader ''data'' news_fs = Inr news_state \<and>
   OneBillionWord_remaining news_reader ''data'' news_fs news_state = [''A one'' @ [newline]] \<and>
   fst (OneBillionWord_reads news_reader ''data'' news_fs news_state [2, 2]) =
     [Inr [[0, 2, 4, 1]], Inl ValueError]"
  by (simp add: news_open news_remaining)
     (simp add: eval_defs obw_eval_defs news_defs OneBillionWord_collect.simps)

text \<open>
  C4, at inputs where the code leaves the claim: after the call that raised
  \<open>StopIteration\<close>, every further call of \<open>TextFile.get_data\<close> and of
  \<open>OneBillionWord.get_data\<close> on the same state raises \<open>ValueError\<close>, since the handle
  was closed before \<open>StopIteration\<close> was raised.
\<close>

theorem get_data_after_StopIteration:
  "TextFile_open three_files_reader three_files_fs = Inr three_files_state \<and>
   fst (TextFile_reads three_files_reader three_files_fs three_files_state 5) =
     [Inr [3, 4, 1], Inr [2, 1], Inl StopIteration, Inl ValueError, Inl ValueError] \<and>
   OneBillionWord_open news_reader ''data'' news_fs = Inr news_state \<and>
   fst (OneBillionWord_reads news_reader ''data'' news_fs news_state [1, 1, 1]) =
     [Inr [[0, 2, 4, 1]], Inl StopIteration, Inl ValueError]"
proof -
  have "TextFile_open three_files_reader three_files_fs = Inr three_files_state"
    by (simp add: eval_defs three_files_defs)
  moreover have "fst (TextFile_reads three_files_reader three_files_fs three_files_state 5) =
     [Inr [3, 4, 1], Inr [2, 1], Inl StopIteration, Inl ValueError, Inl ValueError]"
    by (simp add: eval_defs three_files_defs TextFile_next_sentence.simps eval_nat_numeral)
  moreover have "fst (OneBillionWord_reads news_reader ''data'' news_fs news_state [1, 1, 1]) =
     [Inr [[0, 2, 4, 1]], Inl StopIteration, Inl ValueError]"
    by (simp add: eval_defs obw_eval_defs news_defs OneBillionWord_collect.simps)
  ultimately show ?thesis using news_open by simp
qed

subsection \<open>The level of a \<open>TextFile\<close>\<close>

text \<open>
  C8, at an input where the code leaves the claim: a reader constructed with level
  \<open>character\<close> over a dictionary of letters returns for the line \<open>ab a\<close> the flat list
  \<open>[1, 0, 3, 2]\<close>, one id per word (the unknown id for \<open>ab\<close>), exactly as the reader of
  level \<open>word\<close> does, not one list of letter ids per word.
\<close>

theorem TextFile_character_level_is_word_level:
  "TextFile_init [''letters.txt''] letters_dictionary (Some ''<S>'') (Some ''</S>'') ''<UNK>''
       ''character'' None = Inr (letters_reader ''character'') \<and>
   TextFile_open (letters_reader ''character'') letters_fs = Inr letters_state \<and>
   fst (TextFile_get_data (letters_reader ''character'') letters_fs letters_state None) =
     Inr [1, 0, 3, 2] \<and>
   TextFile_get_data (letters_reader ''character'') letters_fs letters_state None =
     TextFile_get_data (letters_reader ''word'') letters_fs letters_state None"
  by (simp add: eval_defs letters_defs TextFile_next_sentence.simps)

subsection \<open>Construction and paths of \<open>OneBillionWord\<close>\<close>

text \<open>
  C10: the constructor of \<open>OneBillionWord\<close> returns a reader for every set name, list
  of partitions, dictionary and preprocessing function, storing them as given; for
  every set name other than \<open>training\<close> the path of a partition is the held-out one;
  and \<open>_open_file\<close> opens the file at the path formatted from the partition number
  whenever that file exists, whatever the number.
\<close>

theorem OneBillionWord_validates_nothing:
  "(\<exists>self. OneBillionWord_init set_name partitions d pp = Inr self \<and> which_set self = set_name \<and>
      which_partitions self = partitions \<and> obw_dictionary self = d) \<and>
   (set_name \<noteq> ''training'' \<longrightarrow>
      partition_path data_path set_name number =
        path_join data_path
          [''1-billion-word'', ''heldout-monolingual.tokenized.shuffled'',
           ''news.en.heldout-'' @ format_05d number @ ''-of-00050'']) \<and>
   (py_index (which_partitions self) i = Inr number \<and>
    fs (partition_path data_path (which_set self) number) = Some body \<longrightarrow>
      OneBillionWord_open_file self data_path fs i = Inr \<lparr>buffer = body, closed = False\<rparr>)"
  by (simp add: OneBillionWord_init_def partition_path_def OneBillionWord_open_file_def
      open_file_def)

theorem OneBillionWord_validates_nothing_witness:
  "OneBillionWord_init ''validation'' [77] Map.empty None = Inr stray_reader \<and>
   ''validation'' \<noteq> ''training'' \<and>
   partition_path ''data'' ''validation'' 77 = stray_path \<and>
   py_index (which_partitions stray_reader) 0 = Inr 77 \<and>
   stray_fs (partition_path ''data'' (which_set stray_reader) 77) = Some (''a line'' @ [newline]) \<and>
   OneBillionWord_open_file stray_reader ''data'' stray_fs 0 =
     Inr \<lparr>buffer = ''a line'' @ [newline], closed = False\<rparr>"
proof -
  note t = OneBillionWord_validates_nothing [where set_name = "''validation''" and number = 77
      and data_path = "''data''" and self = stray_reader and i = 0 and fs = stray_fs
      and body = "''a line'' @ [newline]"]
  have n: "''validation'' \<noteq> ''training''" by simp
  have p: "partition_path ''data'' ''validation'' 77 = stray_path"
    using t [THEN conjunct2, THEN conjunct1, rule_format, OF n]
    by (simp add: path_defs stray_path_def)
  have h: "py_index (which_partitions stray_reader) 0 = Inr 77 \<and>
      stray_fs (partition_path ''data'' (which_set stray_reader) 77) = Some (''a line'' @ [newline])"
    using p by (simp add: py_index_def stray_reader_def stray_fs_def)
  note o = t [THEN conjunct2, THEN conjunct2, rule_format, OF h]
  have i: "OneBillionWord_init ''validation'' [77] Map.empty None = Inr stray_reader"
    by (simp add: OneBillionWord_init_def stray_reader_def)
  from i n p h o show ?thesis by (intro conjI) simp_all
qed

subsection \<open>The saving and loading extensions\<close>

text \<open>
  C7: no exception leaves \<open>SerializeMainLoop.do\<close>, \<open>SaveTrainingState.do\<close> or
  \<open>LoadTrainingState.before_training\<close>. After a save extension the log's
  \<open>saving_done_to\<close> is the destination when nothing was raised and \<open>None\<close> when
  anything was. After the load extension the main loop is as \<open>load_to\<close> left it, with
  \<open>loaded_from\<close> set to the folder only when \<open>load_to\<close> raised nothing; when it raised,
  the text of the exception is logged as an error and nothing else is done.
\<close>

theorem extensions_catch_every_exception:
  "fst (SerializeMainLoop_do refused dump path w) = None \<and>
   log_current_row (the_main_loop (snd (SerializeMainLoop_do refused dump path w))) SAVING_DONE_TO =
     Some (if refused path = None \<and>
              snd (dump (set_row (the_main_loop w) SAVING_DONE_TO (PyStr path))) = None
           then PyStr path else PyNone) \<and>
   fst (SaveTrainingState_do manager_save folder w) = None \<and>
   log_current_row (the_main_loop (snd (SaveTrainingState_do manager_save folder w))) SAVING_DONE_TO =
     Some (if fst (manager_save (set_row (the_main_loop w) SAVING_DONE_TO (PyStr folder)) (disk w)) = None
           then PyStr folder else PyNone) \<and>
   fst (LoadTrainingState_before_training manager_load_to format_exc folder w) = None \<and>
   (case manager_load_to (disk w) (the_main_loop w) of
      (None, ml) \<Rightarrow>
        the_main_loop (snd (LoadTrainingState_before_training manager_load_to format_exc folder w)) =
          set_row ml LOADED_FROM (PyStr folder) \<and>
        logged (snd (LoadTrainingState_before_training manager_load_to format_exc folder w)) =
          logged w @ [(''info'', ''Loading the state from '' @ folder @ '' into the main loop'')]
    | (Some e, ml) \<Rightarrow>
        the_main_loop (snd (LoadTrainingState_before_training manager_load_to format_exc folder w)) = ml \<and>
        logged (snd (LoadTrainingState_before_training manager_load_to format_exc folder w)) =
          logged w @ [(''info'', ''Loading the state from '' @ folder @ '' into the main loop''),
                      (''error'', ''Failed to load the state:'' @ [newline] @ format_exc e)])"
proof -
  have a: "fst (SerializeMainLoop_do refused dump path w) = None"
    by (simp add: SerializeMainLoop_do_def split: prod.splits option.splits)
  have b: "log_current_row (the_main_loop (snd (SerializeMainLoop_do refused dump path w))) SAVING_DONE_TO =
     Some (if refused path = None \<and>
              snd (dump (set_row (the_main_loop w) SAVING_DONE_TO (PyStr path))) = None
           then PyStr path else PyNone)"
    by (auto simp: SerializeMainLoop_do_def SerializeMainLoop_try_def open_wb_def set_row_def Let_def
        split: prod.splits option.splits sum.splits)
  have c: "fst (SaveTrainingState_do manager_save folder w) = None"
    by (simp add: SaveTrainingState_do_def split: prod.splits option.splits)
  have d: "log_current_row (the_main_loop (snd (SaveTrainingState_do manager_save folder w))) SAVING_DONE_TO =
     Some (if fst (manager_save (set_row (the_main_loop w) SAVING_DONE_TO (PyStr folder)) (disk w)) = None
           then PyStr folder else PyNone)"
    by (auto simp: SaveTrainingState_do_def SaveTrainingState_try_def set_row_def Let_def
        split: prod.splits option.splits)
  have e: "fst (LoadTrainingState_before_training manager_load_to format_exc folder w) = None"
    by (simp add: LoadTrainingState_before_training_def Let_def split: prod.splits option.splits)
  have f: "case manager_load_to (disk w) (the_main_loop w) of
      (None, ml) \<Rightarrow>
        the_main_loop (snd (LoadTrainingState_before_training manager_load_to format_exc folder w)) =
          set_row ml LOADED_FROM (PyStr folder) \<and>
        logged (snd (LoadTrainingState_before_training manager_load_to format_exc folder w)) =
          logged w @ [(''info'', ''Loading the state from '' @ folder @ '' into the main loop'')]
    | (Some e, ml) \<Rightarrow>
        the_main_loop (snd (LoadTrainingState_before_training manager_load_to format_exc folder w)) = ml \<and>
        logged (snd (LoadTrainingState_before_training manager_load_to format_exc folder w)) =
          logged w @ [(''info'', ''Loading the state from '' @ folder @ '' into the main loop''),
                      (''error'', ''Failed to load the state:'' @ [newline] @ format_exc e)]"
    by (auto simp: LoadTrainingState_before_training_def LoadTrainingState_try_def logger_call_def
        Let_def split: prod.splits option.splits)
  from a b c d e f show ?thesis by (intro conjI)
qed

text \<open>
  C1 fails on the code: with an earlier snapshot at the destination and a serializer
  that raises after writing some bytes, \<open>SerializeMainLoop.do\<close> returns normally, and
  the destination then holds those bytes, neither the earlier snapshot nor a complete
  one.
\<close>

theorem SerializeMainLoop_do_not_atomic:
  "disk snapshot_world ''main_loop.pkl'' = Some ''previous snapshot'' \<and>
   fst (SerializeMainLoop_do never_refused failing_dump ''main_loop.pkl'' snapshot_world) = None \<and>
   disk (snd (SerializeMainLoop_do never_refused failing_dump ''main_loop.pkl'' snapshot_world))
     ''main_loop.pkl'' = Some ''half'' \<and>
   \<not> atomic_save never_refused failing_dump ''main_loop.pkl'' snapshot_world"
  by (simp add: atomic_save_def SerializeMainLoop_do_def SerializeMainLoop_try_def open_wb_def
      set_row_def Let_def snapshot_world_def never_refused_def failing_dump_def fun_eq_iff)

text \<open>
  C1 as amended: \<open>SerializeMainLoop.do\<close> never raises. When the destination cannot be
  opened for writing, the disk is unchanged and \<open>saving_done_to\<close> is \<open>None\<close>. When it
  can, the file at the destination holds exactly what the serializer wrote, the rest of
  the disk is unchanged, and \<open>saving_done_to\<close> is the destination if the serializer
  raised nothing and \<open>None\<close> if it raised.
\<close>

theorem SerializeMainLoop_do_outcomes:
  "fst (SerializeMainLoop_do refused dump path w) = None \<and>
   (case refused path of
      Some e \<Rightarrow>
        disk (snd (SerializeMainLoop_do refused dump path w)) = disk w \<and>
        log_current_row (the_main_loop (snd (SerializeMainLoop_do refused dump path w)))
          SAVING_DONE_TO = Some PyNone
    | None \<Rightarrow>
        (case dump (set_row (the_main_loop w) SAVING_DONE_TO (PyStr path)) of
           (written, raised) \<Rightarrow>
             disk (snd (SerializeMainLoop_do refused dump path w)) = (disk w)(path \<mapsto> written) \<and>
             log_current_row (the_main_loop (snd (SerializeMainLoop_do refused dump path w)))
               SAVING_DONE_TO = Some (if raised = None then PyStr path else PyNone)))"
  by (auto simp: SerializeMainLoop_do_def SerializeMainLoop_try_def open_wb_def set_row_def Let_def
      split: prod.splits option.splits sum.splits)

end
